theory Spec2Isabelle
  imports Main "HOL-Library.Sublist"
begin

section \<open>The hello server (cmd/hello/hello.go)\<close>

text \<open>
  The program is one HTTP handler, \<open>root\<close>, with its helpers \<open>devMode\<close>, \<open>slurpHTML\<close>,
  \<open>getTmpl\<close>, \<open>firstLabel\<close> and \<open>whoIs\<close>. Go strings are byte sequences, so a string is a
  \<open>char list\<close> and \<open>length\<close> is Go's \<open>len\<close>. An \<open>error\<close> value is modelled by the text
  of its \<open>Error()\<close> method.
\<close>

subsection \<open>Standard library string functions\<close>

text \<open>
  Modelled from the spec: the functions of Go's standard library are not among the
  sources. The spec speaks of a substring match on the host and of the first period of a
  machine name. \<open>strings.Index(s, substr)\<close> is the index of the first instance of
  \<open>substr\<close> in \<open>s\<close>, or \<open>-1\<close> when there is none; \<open>strings.Contains\<close> is \<open>Index \<ge> 0\<close>.
\<close>

fun strings_Index :: "string \<Rightarrow> string \<Rightarrow> int" where
  "strings_Index [] substr = (if substr = [] then 0 else - 1)"
| "strings_Index (c # s) substr =
     (if prefix substr (c # s) then 0
      else (let i = strings_Index s substr in if i < 0 then - 1 else i + 1))"

definition strings_Contains :: "string \<Rightarrow> string \<Rightarrow> bool" where
  "strings_Contains s substr = (strings_Index s substr \<ge> 0)"

text \<open>
  \<open>bytealg.IndexByteString\<close> and \<open>bytealg.LastIndexByteString\<close>: the index of the first
  (last) occurrence of a byte, or \<open>-1\<close>.
\<close>

fun IndexByteString :: "string \<Rightarrow> char \<Rightarrow> int" where
  "IndexByteString [] c = - 1"
| "IndexByteString (x # s) c =
     (if x = c then 0
      else (let i = IndexByteString s c in if i < 0 then - 1 else i + 1))"

fun LastIndexByteString :: "string \<Rightarrow> char \<Rightarrow> int" where
  "LastIndexByteString [] c = - 1"
| "LastIndexByteString (x # s) c =
     (let i = LastIndexByteString s c in
      if i \<ge> 0 then i + 1 else if x = c then 0 else - 1)"

text \<open>
  Go's slice expressions \<open>s[lo:hi]\<close>, \<open>s[:hi]\<close> and \<open>s[lo:]\<close>. The program slices a
  string only at an index that a search found in it, or below a length it has checked, so
  the panic of a slice out of range is not a branch of the model.
\<close>

definition slice :: "string \<Rightarrow> int \<Rightarrow> int \<Rightarrow> string" where
  "slice s lo hi = take (nat hi - nat lo) (drop (nat lo) s)"

definition slice_to :: "string \<Rightarrow> int \<Rightarrow> string" where
  "slice_to s hi = take (nat hi) s"

definition slice_from :: "string \<Rightarrow> int \<Rightarrow> string" where
  "slice_from s lo = drop (nat lo) s"

subsection \<open>net.SplitHostPort\<close>

datatype AddrError = AddrError (Err: string) (Addr: string)

definition missingPort :: string where
  "missingPort = ''missing port in address''"

definition tooManyColons :: string where
  "tooManyColons = ''too many colons in address''"

text \<open>
  Modelled from the spec: \<open>net.SplitHostPort\<close> belongs to Go's standard library and is not
  among the sources of the repository. The spec says of it that it splits the caller's
  socket address into host and port, that a well-formed \<open>host:port\<close> input does not fail
  and that an input lacking a colon-separated port fails. The definition follows the
  library's algorithm, which meets those words: the port starts after the last colon; a
  host that holds colons is written in square brackets; brackets anywhere else are an
  error.
\<close>

definition SplitHostPort_tail ::
    "string \<Rightarrow> string \<Rightarrow> int \<Rightarrow> int \<Rightarrow> int \<Rightarrow> AddrError + (string \<times> string)" where
  "SplitHostPort_tail hostport host i j k =
     (if IndexByteString (slice_from hostport j) CHR ''['' \<ge> 0
        then Inl (AddrError ''unexpected '[' in address'' hostport)
      else if IndexByteString (slice_from hostport k) CHR '']'' \<ge> 0
        then Inl (AddrError ''unexpected ']' in address'' hostport)
      else Inr (host, slice_from hostport (i + 1)))"

definition SplitHostPort :: "string \<Rightarrow> AddrError + (string \<times> string)" where
  "SplitHostPort hostport =
     (let i = LastIndexByteString hostport CHR '':'' in
      if i < 0 then Inl (AddrError missingPort hostport)
      else if hostport ! 0 = CHR ''['' then
        (let end = IndexByteString hostport CHR '']'' in
         if end < 0 then Inl (AddrError ''missing ']' in address'' hostport)
         else if end + 1 = int (length hostport) then Inl (AddrError missingPort hostport)
         else if end + 1 = i then
           SplitHostPort_tail hostport (slice hostport 1 end) i 1 (end + 1)
         else if hostport ! nat (end + 1) = CHR '':''
           then Inl (AddrError tooManyColons hostport)
         else Inl (AddrError missingPort hostport))
      else
        (let host = slice_to hostport i in
         if IndexByteString host CHR '':'' \<ge> 0 then Inl (AddrError tooManyColons hostport)
         else SplitHostPort_tail hostport host i 0 0))"

subsection \<open>Data\<close>

text \<open>
  The flags \<open>-http\<close> and \<open>-https\<close>, and the package variable \<open>tmpl\<close>, which \<open>main\<close> sets
  from the embedded template before it serves whenever the process is not in dev mode. A
  parsed template is known by the text it was parsed from.
\<close>

datatype template = Template string

record proc =
  httpAddr :: string
  httpsAddr :: string
  tmpl :: template

record tmplData =
  DisplayName :: string
  LoginName :: string
  ProfilePicURL :: string
  MachineName :: string
  MachineOS :: string
  IP :: string

text \<open>
  Modelled from the spec: the declaration of \<open>tailcfg.WhoIsResponse\<close> (package \<open>tailcfg\<close>)
  is not among the sources. The spec's identity record has a display name, a login
  identifier, an avatar URL, a dotted machine name and a device OS; the records hold
  them under the field names by which \<open>root\<close> reads them. The fields of the user profile
  carry a prefix, since \<open>tmplData\<close> has fields of the same names.
\<close>

record Hostinfo =
  OS :: string

record Node =
  ComputedName :: string
  Hostinfo :: Hostinfo

record UserProfile =
  up_DisplayName :: string
  up_LoginName :: string
  up_ProfilePicURL :: string

record WhoIsResponse =
  Node :: Node
  UserProfile :: UserProfile

text \<open>The fields of \<open>http.Request\<close> that \<open>root\<close> reads; \<open>TLS\<close> is a pointer, \<open>None\<close> is nil.\<close>

datatype ConnectionState = ConnectionState

record Request =
  Method :: string
  Host :: string
  RequestURI :: string
  RemoteAddr :: string
  TLS :: "ConnectionState option"

text \<open>The request that \<open>whoIs\<close> sends and the fields of the response that it reads.\<close>

record ClientRequest =
  cr_Method :: string
  cr_URL :: string
  cr_BasicAuth :: "(string \<times> string) option"

record Response =
  StatusCode :: int
  Status :: string
  Body :: string

text \<open>
  What the handler does not compute itself is a parameter: the library functions whose
  results it only passes on, and the answers of the file system and of the local daemon.
  \<^item> \<open>QueryEscape\<close>: \<open>url.QueryEscape\<close>;
  \<^item> \<open>NewRequest method url\<close>: the error of \<open>http.NewRequestWithContext\<close>, \<open>None\<close> for nil;
  \<^item> \<open>LocalTCPPortAndToken\<close>: \<open>safesocket.LocalTCPPortAndToken()\<close>, an error or port and token;
  \<^item> \<open>Do\<close>: \<open>tsSockClient.Do\<close>, an error or the response with its body read by \<open>ioutil.ReadAll\<close>;
  \<^item> \<open>Unmarshal\<close>: \<open>json.Unmarshal\<close> into a new \<open>WhoIsResponse\<close>;
  \<^item> \<open>Quote\<close>: the text that the verb \<open>%q\<close> prints for a byte slice;
  \<^item> \<open>ReadFile\<close>: \<open>ioutil.ReadFile\<close>;
  \<^item> \<open>Parse\<close>: \<open>template.New("home").Parse\<close>;
  \<^item> \<open>Execute\<close>: \<open>(*Template).Execute\<close>, the bytes it writes and its error, \<open>None\<close> for nil.
\<close>

record world =
  QueryEscape :: "string \<Rightarrow> string"
  NewRequest :: "string \<Rightarrow> string \<Rightarrow> string option"
  LocalTCPPortAndToken :: "string + (int \<times> string)"
  Do :: "ClientRequest \<Rightarrow> string + Response"
  Unmarshal :: "string \<Rightarrow> string + WhoIsResponse"
  Quote :: "string \<Rightarrow> string"
  ReadFile :: "string \<Rightarrow> string + string"
  Parse :: "string \<Rightarrow> string + template"
  Execute :: "template \<Rightarrow> tmplData \<Rightarrow> string \<times> string option"

text \<open>
  The effects of a run, in order: the calls on the \<open>http.ResponseWriter\<close>
  (\<open>http.Redirect\<close>, \<open>http.Error\<close>, \<open>w.Header().Set\<close>, \<open>tmpl.Execute(w, data)\<close> with what it
  wrote and returned), the calls of \<open>log.Printf\<close> (format and arguments) and \<open>log.Fatal\<close>, the
  read of the template file and the request to the local daemon.
\<close>

datatype event =
    Redirect string int
  | Error string int
  | HeaderSet string string
  | Executed template tmplData string "string option"
  | Printf string "string list"
  | Fatal string
  | FileRead string
  | Sent ClientRequest

text \<open>A handler returns, or the process exits under it (\<open>log.Fatal\<close> calls \<open>os.Exit(1)\<close>).\<close>

datatype 'a exec = Ret 'a | Exit

datatype outcome = Returned | Exited

definition StatusFound :: int where
  "StatusFound = 302"

subsection \<open>The functions of hello.go\<close>

definition slurpHTML :: "world \<Rightarrow> event list \<times> string exec" where
  "slurpHTML w =
     (case ReadFile w ''hello.tmpl.html'' of
        Inl err \<Rightarrow> ([FileRead ''hello.tmpl.html'', Fatal err], Exit)
      | Inr slurp \<Rightarrow> ([FileRead ''hello.tmpl.html''], Ret slurp))"

definition devMode :: "proc \<Rightarrow> bool" where
  "devMode p = (httpsAddr p = [] \<and> httpAddr p \<noteq> [])"

definition getTmpl :: "proc \<Rightarrow> world \<Rightarrow> event list \<times> (string + template) exec" where
  "getTmpl p w =
     (if devMode p then
        (case slurpHTML w of
           (es, Exit) \<Rightarrow> (es, Exit)
         | (es, Ret text) \<Rightarrow> (es, Ret (Parse w text)))
      else ([], Ret (Inr (tmpl p))))"

definition firstLabel :: "string \<Rightarrow> string" where
  "firstLabel s =
     (let i = strings_Index s ''.'' in
      if i \<noteq> - 1 then slice_to s i else s)"

definition whoIs :: "world \<Rightarrow> string \<Rightarrow> event list \<times> (string + WhoIsResponse)" where
  "whoIs w ip =
     (let url = ''http://local-tailscaled.sock/localapi/v0/whois?ip='' @ QueryEscape w ip in
      case NewRequest w ''GET'' url of
        Some err \<Rightarrow> ([], Inl err)
      | None \<Rightarrow>
          (let req = \<lparr>cr_Method = ''GET'', cr_URL = url,
                      cr_BasicAuth =
                        (case LocalTCPPortAndToken w of
                           Inl err \<Rightarrow> None
                         | Inr (port, token) \<Rightarrow> Some ([], token))\<rparr> in
           case Do w req of
             Inl err \<Rightarrow> ([Sent req], Inl err)
           | Inr res \<Rightarrow>
               (let slurp = Body res in
                if StatusCode res \<noteq> 200
                  then ([Sent req], Inl (''HTTP '' @ Status res @ '': '' @ slurp))
                else
                  (case Unmarshal w slurp of
                     Inl err \<Rightarrow>
                       (let max = 200;
                            slurp = (if int (length slurp) > max then slice_to slurp max
                                     else slurp) in
                        ([Sent req],
                         Inl (''failed to parse JSON WhoIsResponse from '' @ Quote w slurp)))
                   | Inr r \<Rightarrow> ([Sent req], Inr r)))))"

text \<open>The literal that \<open>root\<close> assigns to \<open>data\<close> when the lookup fails in dev mode.\<close>

definition fakeData :: tmplData where
  "fakeData =
     \<lparr>DisplayName = ''Taily Scalerson'',
      LoginName = ''taily@scaler.son'',
      ProfilePicURL = ''https://placekitten.com/200/200'',
      MachineName = ''scaled'',
      MachineOS = ''Linux'',
      IP = ''100.1.2.3''\<rparr>"

text \<open>
  The last two statements of \<open>root\<close>, which both branches that fill \<open>data\<close> reach: the
  header is set and the template executed; the error of \<open>Execute\<close> is dropped.
\<close>

definition render :: "world \<Rightarrow> template \<Rightarrow> tmplData \<Rightarrow> event list" where
  "render w t data =
     [HeaderSet ''Content-Type'' ''text/html; charset=utf-8'',
      Executed t data (fst (Execute w t data)) (snd (Execute w t data))]"

definition root :: "proc \<Rightarrow> world \<Rightarrow> Request \<Rightarrow> event list \<times> outcome" where
  "root p w r =
     (if TLS r = None \<and> httpsAddr p \<noteq> [] then
        (let host = (if strings_Contains (Host r) ''100.101.102.103''
                     then ''hello.ipn.dev'' else Host r) in
         ([Redirect (''https://'' @ host) StatusFound], Returned))
      else if RequestURI r \<noteq> ''/'' then
        ([Redirect ''/'' StatusFound], Returned)
      else
        (case SplitHostPort (RemoteAddr r) of
           Inl err \<Rightarrow> ([Error ''no remote addr'' 500], Returned)
         | Inr (ip, port) \<Rightarrow>
             (case getTmpl p w of
                (es, Exit) \<Rightarrow> (es, Exited)
              | (es, Ret (Inl err)) \<Rightarrow>
                  (es @ [HeaderSet ''Content-Type'' ''text/plain'',
                         Error (''template error: '' @ err) 500], Returned)
              | (es, Ret (Inr t)) \<Rightarrow>
                  (case whoIs w ip of
                     (es', Inl err) \<Rightarrow>
                       (if devMode p then
                          (es @ es' @
                           [Printf ''warning: using fake data in dev mode due to whois lookup error: %v'' [err]]
                           @ render w t fakeData, Returned)
                        else
                          (es @ es' @
                           [Printf ''whois(%q) error: %v'' [ip, err],
                            Error ''Your Tailscale works, but we failed to look you up.'' 500],
                           Returned))
                   | (es', Inr who) \<Rightarrow>
                       (es @ es' @
                        render w t
                          \<lparr>DisplayName = up_DisplayName (UserProfile who),
                           LoginName = up_LoginName (UserProfile who),
                           ProfilePicURL = up_ProfilePicURL (UserProfile who),
                           MachineName = firstLabel (ComputedName (Node who)),
                           MachineOS = OS (Hostinfo (Node who)),
                           IP = ip\<rparr>, Returned)))))"

subsection \<open>What the client sees\<close>

text \<open>
  The status of the response that \<open>net/http\<close> sends for the calls of a handler: the first
  call that writes the header decides (\<open>http.Redirect\<close> and \<open>http.Error\<close> write the code
  they are given, a template that writes without a header gives 200), and a handler that
  returns without writing gives 200.
\<close>

fun status :: "event list \<Rightarrow> int" where
  "status [] = 200"
| "status (Redirect url code # es) = code"
| "status (Error msg code # es) = code"
| "status (Executed t data out err # es) = 200"
| "status (e # es) = status es"

text \<open>The calls that write a response.\<close>

fun responds :: "event \<Rightarrow> bool" where
  "responds (Redirect url code) = True"
| "responds (Error msg code) = True"
| "responds (Executed t data out err) = True"
| "responds e = False"

subsection \<open>Concrete runs\<close>

text \<open>
  A configuration with both listeners and one with the HTTP listener only, a request for
  \<open>/\<close> from \<open>100.2.3.4\<close>, and a world in which the file is read, the template parses and
  runs, and the daemon answers 200 with a body that decodes to the identity below.
\<close>

definition example_json :: string where
  \<open>example_json = ''{"UserProfile":{"DisplayName":"Foo Barberson","LoginName":"foo@bar.com","ProfilePicURL":"https://x/y.png"},"Node":{"ComputedName":"imac5k.local","Hostinfo":{"OS":"Linux"}}}''\<close>

definition example_who :: WhoIsResponse where
  "example_who =
     \<lparr>Node = \<lparr>ComputedName = ''imac5k.local'', Hostinfo = \<lparr>OS = ''Linux''\<rparr>\<rparr>,
      UserProfile = \<lparr>up_DisplayName = ''Foo Barberson'', up_LoginName = ''foo@bar.com'',
                     up_ProfilePicURL = ''https://x/y.png''\<rparr>\<rparr>"

definition example_prod :: proc where
  "example_prod = \<lparr>httpAddr = '':80'', httpsAddr = '':443'', tmpl = Template ''<h1>hello</h1>''\<rparr>"

definition example_dev :: proc where
  "example_dev = \<lparr>httpAddr = '':8080'', httpsAddr = [], tmpl = Template []\<rparr>"

definition example_request :: Request where
  "example_request =
     \<lparr>Method = ''GET'', Host = ''hello.ipn.dev'', RequestURI = ''/'',
      RemoteAddr = ''100.2.3.4:5678'', TLS = Some ConnectionState\<rparr>"

definition example_world :: world where
  "example_world =
     \<lparr>QueryEscape = (\<lambda>s. s),
      NewRequest = (\<lambda>method url. None),
      LocalTCPPortAndToken = Inl ''not supported'',
      Do = (\<lambda>req. Inr \<lparr>StatusCode = 200, Status = ''200 OK'', Body = example_json\<rparr>),
      Unmarshal = (\<lambda>b. if b = example_json then Inr example_who
                         else Inl ''invalid character''),
      Quote = (\<lambda>s. [CHR 0x22] @ s @ [CHR 0x22]),
      ReadFile = (\<lambda>name. Inr ''<h1>hello</h1>''),
      Parse = (\<lambda>text. Inr (Template text)),
      Execute = (\<lambda>t data. (''<h1>hello</h1>'', None))\<rparr>"

text \<open>The request that \<open>whoIs\<close> sends for \<open>100.2.3.4\<close> in that world.\<close>

definition example_lookup :: ClientRequest where
  "example_lookup =
     \<lparr>cr_Method = ''GET'',
      cr_URL = ''http://local-tailscaled.sock/localapi/v0/whois?ip=100.2.3.4'',
      cr_BasicAuth = None\<rparr>"

text \<open>
  Worlds in which one step fails: the daemon answers 200 with a body of 300 bytes that
  does not decode; the template file cannot be read; its text does not parse; the
  template fails while it runs, after it wrote its first bytes.
\<close>

definition example_garbled :: world where
  "example_garbled =
     example_world
       \<lparr>Do := \<lambda>req. Inr \<lparr>StatusCode = 200, Status = ''200 OK'',
                          Body = replicate 300 CHR ''<''\<rparr>,
        Unmarshal := \<lambda>b. Inl ''invalid character''\<rparr>"

definition example_unreadable :: world where
  "example_unreadable =
     example_world\<lparr>ReadFile := \<lambda>name. Inl ''open hello.tmpl.html: no such file or directory''\<rparr>"

definition example_unparsable :: world where
  "example_unparsable =
     example_world\<lparr>ReadFile := \<lambda>name. Inr ''<h1>{{.DisplayName</h1>'',
                   Parse := \<lambda>src. Inl ''template: home:1: unclosed action''\<rparr>"

definition example_unexecutable :: world where
  "example_unexecutable =
     example_world\<lparr>ReadFile := \<lambda>name. Inr ''<h1>{{.Nope}}</h1>'',
                   Execute := \<lambda>t data. (''<h1>'', Some ''can't evaluate field Nope in type main.tmplData'')\<rparr>"

section \<open>The string functions\<close>

lemma IndexByteString_range: "- 1 \<le> IndexByteString s c"
  by (induction s) (auto simp: Let_def)

lemma IndexByteString_neg: "IndexByteString s c < 0 \<longleftrightarrow> c \<notin> set s"
  by (induction s) (auto simp: Let_def)

lemma IndexByteString_takeWhile:
  "c \<in> set s \<Longrightarrow> IndexByteString s c = int (length (takeWhile (\<lambda>x. x \<noteq> c) s))"
  by (induction s) (auto simp: Let_def IndexByteString_neg)

lemma LastIndexByteString_neg: "LastIndexByteString s c < 0 \<longleftrightarrow> c \<notin> set s"
  by (induction s) (auto simp: Let_def)

lemma LastIndexByteString_append:
  "c \<notin> set q \<Longrightarrow> LastIndexByteString (h @ c # q) c = int (length h)"
  by (induction h) (auto simp: Let_def LastIndexByteString_neg not_less[symmetric] simp del: not_less)

lemma strings_Index_range: "- 1 \<le> strings_Index s sub"
  by (induction s) (auto simp: Let_def)

lemma strings_Index_bound: "strings_Index s sub \<le> int (length s)"
  by (induction s) (auto simp: Let_def)

lemma IndexByteString_bound: "IndexByteString s c < int (length s) \<or> s = []"
  by (induction s) (auto simp: Let_def)

lemma strings_Index_sublist: "strings_Index s sub \<ge> 0 \<longleftrightarrow> sublist sub s"
proof (induction s)
  case Nil
  then show ?case by simp
next
  case (Cons c s)
  have "- 1 \<le> strings_Index s sub" by (rule strings_Index_range)
  with Cons show ?case
    by (auto simp: Let_def sublist_Cons_right)
qed

lemma strings_Contains_iff: "strings_Contains s sub \<longleftrightarrow> (\<exists>p q. s = p @ sub @ q)"
  by (simp add: strings_Contains_def strings_Index_sublist sublist_def)

lemma strings_Index_char:
  "strings_Index s [c] = (if c \<in> set s then int (length (takeWhile (\<lambda>x. x \<noteq> c) s)) else - 1)"
proof (induction s)
  case Nil
  show ?case by simp
next
  case (Cons x s)
  show ?case
  proof (cases "x = c")
    case True
    then show ?thesis by simp
  next
    case False
    then have "strings_Index (x # s) [c] = (let i = strings_Index s [c] in if i < 0 then - 1 else i + 1)"
      by simp
    with False Cons show ?thesis by (simp add: Let_def)
  qed
qed

lemma firstLabel_takeWhile: "firstLabel s = takeWhile (\<lambda>c. c \<noteq> CHR ''.'') s"
proof (cases "CHR ''.'' \<in> set s")
  case True
  have "take (length (takeWhile (\<lambda>c. c \<noteq> CHR ''.'') s)) s = takeWhile (\<lambda>c. c \<noteq> CHR ''.'') s"
    by (rule takeWhile_eq_take [symmetric])
  with True show ?thesis
    by (simp add: firstLabel_def strings_Index_char slice_to_def Let_def)
next
  case False
  then have "takeWhile (\<lambda>c. c \<noteq> CHR ''.'') s = s"
    by (intro takeWhile_eq_all_conv [THEN iffD2]) auto
  moreover from False have "firstLabel s = s"
    by (simp add: firstLabel_def strings_Index_char Let_def)
  ultimately show ?thesis by (rule ssubst)
qed

section \<open>Splitting an address\<close>

lemma drop_length_append: "drop (length xs) (xs @ ys) = ys"
  by simp

lemma SplitHostPort_no_colon:
  "CHR '':'' \<notin> set a \<Longrightarrow> SplitHostPort a = Inl (AddrError missingPort a)"
  using LastIndexByteString_neg [of a "CHR '':''"] by (simp add: SplitHostPort_def Let_def)

lemma SplitHostPort_host_port:
  assumes host: "CHR '':'' \<notin> set host" "CHR ''['' \<notin> set host" "CHR '']'' \<notin> set host"
      and port: "CHR '':'' \<notin> set port" "CHR ''['' \<notin> set port" "CHR '']'' \<notin> set port"
  shows "SplitHostPort (host @ CHR '':'' # port) = Inr (host, port)"
proof -
  let ?a = "host @ CHR '':'' # port"
  have i: "LastIndexByteString ?a CHR '':'' = int (length host)"
    using port(1) by (rule LastIndexByteString_append)
  have first: "?a ! 0 \<noteq> CHR ''[''"
    using host(2) by (cases host) auto
  have colon: "\<not> IndexByteString (slice_to ?a (int (length host))) CHR '':'' \<ge> 0"
    using host(1) IndexByteString_neg [of host "CHR '':''"] by (simp add: slice_to_def)
  have tail: "SplitHostPort_tail ?a host (int (length host)) 0 0 = Inr (host, port)"
    using host(2,3) port(2,3)
      IndexByteString_neg [of ?a "CHR ''[''"] IndexByteString_neg [of ?a "CHR '']''"]
    by (simp add: SplitHostPort_tail_def slice_from_def nat_add_distrib)
  show ?thesis
    using first colon tail by (simp add: SplitHostPort_def i Let_def slice_to_def)
qed

lemma SplitHostPort_bracket:
  assumes host: "CHR ''['' \<notin> set host" "CHR '']'' \<notin> set host"
      and port: "CHR '':'' \<notin> set port" "CHR ''['' \<notin> set port" "CHR '']'' \<notin> set port"
  shows "SplitHostPort (CHR ''['' # host @ CHR '']'' # CHR '':'' # port) = Inr (host, port)"
proof -
  let ?a = "CHR ''['' # host @ CHR '']'' # CHR '':'' # port"
  have "LastIndexByteString ((CHR ''['' # host @ [CHR '']'']) @ CHR '':'' # port) CHR '':''
          = int (length (CHR ''['' # host @ [CHR '']'']))"
    using port(1) by (rule LastIndexByteString_append)
  then have i: "LastIndexByteString ?a CHR '':'' = int (length host) + 2"
    by simp
  have "takeWhile (\<lambda>x. x \<noteq> CHR '']'') (host @ CHR '']'' # CHR '':'' # port) = host"
    using host(2) by (auto simp: takeWhile_tail)
  then have "end": "IndexByteString ?a CHR '']'' = int (length host) + 1"
    using IndexByteString_takeWhile [of "CHR '']''" ?a] by simp
  have d1: "slice_from ?a 1 = host @ CHR '']'' # CHR '':'' # port"
    by (simp add: slice_from_def)
  have n2: "nat (int (length host) + 2) = length (CHR ''['' # host @ [CHR '']''])"
    by simp
  have a2: "?a = (CHR ''['' # host @ [CHR '']'']) @ CHR '':'' # port"
    by simp
  have d2: "slice_from ?a (int (length host) + 2) = CHR '':'' # port"
    unfolding slice_from_def n2 by (subst a2) (rule drop_length_append)
  have n3: "nat (int (length host) + 2 + 1) = length (CHR ''['' # host @ [CHR '']'', CHR '':''])"
    by simp
  have a3: "?a = (CHR ''['' # host @ [CHR '']'', CHR '':'']) @ port"
    by simp
  have d3: "slice_from ?a (int (length host) + 2 + 1) = port"
    unfolding slice_from_def n3 by (subst a3) (rule drop_length_append)
  have b1: "\<not> IndexByteString (host @ CHR '']'' # CHR '':'' # port) CHR ''['' \<ge> 0"
    using host(1) port(2)
      IndexByteString_neg [of "host @ CHR '']'' # CHR '':'' # port" "CHR ''[''"] by simp
  have b2: "\<not> IndexByteString (CHR '':'' # port) CHR '']'' \<ge> 0"
    using port(3) IndexByteString_neg [of "CHR '':'' # port" "CHR '']''"] by simp
  have tail: "SplitHostPort_tail ?a host (int (length host) + 2) 1 (int (length host) + 2)
                = Inr (host, port)"
    unfolding SplitHostPort_tail_def d1 d2 d3 using b1 b2 by simp
  have host_eq: "slice ?a 1 (int (length host) + 1) = host"
    by (simp add: slice_def nat_add_distrib)
  have e1: "int (length host) + 1 + 1 = int (length host) + 2"
    by simp
  show ?thesis
    unfolding SplitHostPort_def Let_def i "end" e1 host_eq tail by simp
qed

section \<open>The run mode\<close>

text \<open>
  Claim C5 as the spec states it (dev mode if and only if the HTTPS address is empty,
  whatever the HTTP address) fails where both addresses are empty: \<open>devMode\<close> also
  asks for an HTTP address.
\<close>

theorem devMode_not_https_alone:
  "\<not> (devMode \<lparr>httpAddr = [], httpsAddr = [], tmpl = Template []\<rparr>
        \<longleftrightarrow> httpsAddr \<lparr>httpAddr = [], httpsAddr = [], tmpl = Template []\<rparr> = [])"
  by (simp add: devMode_def)

text \<open>
  Claim C5, amended: the process is in dev mode if and only if the HTTPS address is empty
  and the HTTP address is not. So among the configurations with an HTTP listener the
  HTTPS address alone decides, and a configuration without an HTTP listener is never in
  dev mode.
\<close>

theorem devMode_iff:
  "(devMode p \<longleftrightarrow> httpsAddr p = [] \<and> httpAddr p \<noteq> [])
   \<and> (httpAddr p \<noteq> [] \<longrightarrow> (devMode p \<longleftrightarrow> httpsAddr p = []))
   \<and> (httpAddr p = [] \<longrightarrow> \<not> devMode p)"
  by (simp add: devMode_def)

theorem devMode_iff_witness:
  "httpAddr example_dev \<noteq> [] \<and> devMode example_dev \<and> httpsAddr example_dev = []
   \<and> httpAddr example_prod \<noteq> [] \<and> \<not> devMode example_prod \<and> httpsAddr example_prod \<noteq> []
   \<and> httpAddr (example_dev\<lparr>httpAddr := []\<rparr>) = [] \<and> \<not> devMode (example_dev\<lparr>httpAddr := []\<rparr>)"
  using devMode_iff [of example_dev] devMode_iff [of example_prod]
    devMode_iff [of "example_dev\<lparr>httpAddr := []\<rparr>"]
  by (simp add: example_dev_def example_prod_def)

section \<open>Redirects\<close>

text \<open>
  Claim C7: a request that passes the HTTPS check (it came over TLS, or no HTTPS address
  is configured) and whose request URI is not exactly \<open>/\<close> is answered by one redirect to
  \<open>/\<close> with status 302, whatever its method, host and remote address: the run is this one
  call, so no address is split, no lookup sent, no file read and no template executed.
\<close>

theorem root_redirects_other_paths:
  assumes "\<not> (TLS r = None \<and> httpsAddr p \<noteq> [])"
      and "RequestURI r \<noteq> ''/''"
  shows "root p w r = ([Redirect ''/'' 302], Returned)"
  using assms by (auto simp: root_def StatusFound_def)

theorem root_redirects_other_paths_witness:
  "\<not> (TLS (example_request\<lparr>RequestURI := ''/foo'', Method := ''POST''\<rparr>) = None
        \<and> httpsAddr example_prod \<noteq> [])
   \<and> RequestURI (example_request\<lparr>RequestURI := ''/foo'', Method := ''POST''\<rparr>) \<noteq> ''/''
   \<and> root example_prod example_world (example_request\<lparr>RequestURI := ''/foo'', Method := ''POST''\<rparr>)
       = ([Redirect ''/'' 302], Returned)
   \<and> \<not> (TLS (example_request\<lparr>RequestURI := ''//'', TLS := None\<rparr>) = None
        \<and> httpsAddr example_dev \<noteq> [])
   \<and> RequestURI (example_request\<lparr>RequestURI := ''//'', TLS := None\<rparr>) \<noteq> ''/''
   \<and> root example_dev example_world (example_request\<lparr>RequestURI := ''//'', TLS := None\<rparr>)
       = ([Redirect ''/'' 302], Returned)"
proof -
  let ?r1 = "example_request\<lparr>RequestURI := ''/foo'', Method := ''POST''\<rparr>"
  let ?r2 = "example_request\<lparr>RequestURI := ''//'', TLS := None\<rparr>"
  have a1: "\<not> (TLS ?r1 = None \<and> httpsAddr example_prod \<noteq> [])"
    by (simp add: example_request_def)
  have b1: "RequestURI ?r1 \<noteq> ''/''"
    by simp
  have a2: "\<not> (TLS ?r2 = None \<and> httpsAddr example_dev \<noteq> [])"
    by (simp add: example_dev_def)
  have b2: "RequestURI ?r2 \<noteq> ''/''"
    by simp
  show ?thesis
    using a1 b1 a2 b2
      root_redirects_other_paths [OF a1 b1, of example_world]
      root_redirects_other_paths [OF a2 b2, of example_world]
    by (intro conjI)
qed

text \<open>
  Claim C8: a request without TLS, while an HTTPS address is configured, is answered by
  one redirect with status 302 to \<open>https://\<close> followed by the host of the request, or
  followed by \<open>hello.ipn.dev\<close> when \<open>100.101.102.103\<close> occurs in that host.
\<close>

theorem root_redirects_to_https:
  assumes "TLS r = None"
      and "httpsAddr p \<noteq> []"
  shows "root p w r =
           ([Redirect (''https://'' @
               (if \<exists>pre suf. Host r = pre @ ''100.101.102.103'' @ suf
                then ''hello.ipn.dev'' else Host r)) 302], Returned)"
  using assms by (simp add: root_def StatusFound_def strings_Contains_iff Let_def)

theorem root_redirects_to_https_witness:
  "TLS (example_request\<lparr>TLS := None\<rparr>) = None \<and> httpsAddr example_prod \<noteq> []
   \<and> root example_prod example_world (example_request\<lparr>TLS := None\<rparr>)
       = ([Redirect ''https://hello.ipn.dev'' 302], Returned)
   \<and> root example_prod example_world (example_request\<lparr>TLS := None, Host := ''100.101.102.103:80''\<rparr>)
       = ([Redirect ''https://hello.ipn.dev'' 302], Returned)
   \<and> root example_prod example_world (example_request\<lparr>TLS := None, Host := ''example.com:80''\<rparr>)
       = ([Redirect ''https://example.com:80'' 302], Returned)"
proof -
  let ?r1 = "example_request\<lparr>TLS := None\<rparr>"
  let ?r2 = "example_request\<lparr>TLS := None, Host := ''100.101.102.103:80''\<rparr>"
  let ?r3 = "example_request\<lparr>TLS := None, Host := ''example.com:80''\<rparr>"
  have a: "httpsAddr example_prod \<noteq> []"
    by (simp add: example_prod_def)
  have tls: "TLS ?r1 = None" "TLS ?r2 = None" "TLS ?r3 = None"
    by simp_all
  have h1: "Host ?r1 = ''hello.ipn.dev''"
    by (simp add: example_request_def)
  have h2: "Host ?r2 = ''100.101.102.103:80''"
    by simp
  have h3: "Host ?r3 = ''example.com:80''"
    by simp
  have "\<not> strings_Contains ''hello.ipn.dev'' ''100.101.102.103''"
    by (simp add: strings_Contains_def)
  then have e1: "(\<exists>pre suf. ''hello.ipn.dev'' = pre @ ''100.101.102.103'' @ suf) = False"
    by (simp only: strings_Contains_iff)
  have "strings_Contains ''100.101.102.103:80'' ''100.101.102.103''"
    by (simp add: strings_Contains_def)
  then have e2: "(\<exists>pre suf. ''100.101.102.103:80'' = pre @ ''100.101.102.103'' @ suf) = True"
    by (simp only: strings_Contains_iff)
  have "\<not> strings_Contains ''example.com:80'' ''100.101.102.103''"
    by (simp add: strings_Contains_def)
  then have e3: "(\<exists>pre suf. ''example.com:80'' = pre @ ''100.101.102.103'' @ suf) = False"
    by (simp only: strings_Contains_iff)
  have t1: "root example_prod example_world ?r1 = ([Redirect ''https://hello.ipn.dev'' 302], Returned)"
    using root_redirects_to_https [OF tls(1) a, of example_world]
    unfolding h1 e1 by simp
  have t2: "root example_prod example_world ?r2 = ([Redirect ''https://hello.ipn.dev'' 302], Returned)"
    using root_redirects_to_https [OF tls(2) a, of example_world]
    unfolding h2 e2 by simp
  have t3: "root example_prod example_world ?r3 = ([Redirect ''https://example.com:80'' 302], Returned)"
    using root_redirects_to_https [OF tls(3) a, of example_world]
    unfolding h3 e3 by simp
  show ?thesis
    using tls(1) a t1 t2 t3 by (intro conjI)
qed

section \<open>A failed lookup\<close>

lemma slurpHTML_quiet: "slurpHTML w = (es, x) \<Longrightarrow> e \<in> set es \<Longrightarrow> \<not> responds e"
  by (auto simp: slurpHTML_def split: sum.splits)

lemma getTmpl_quiet: "getTmpl p w = (es, x) \<Longrightarrow> e \<in> set es \<Longrightarrow> \<not> responds e"
  by (auto simp: getTmpl_def split: if_splits prod.splits exec.splits dest: slurpHTML_quiet)

lemma whoIs_quiet: "whoIs w ip = (es, x) \<Longrightarrow> e \<in> set es \<Longrightarrow> \<not> responds e"
  by (auto simp: whoIs_def Let_def split: option.splits sum.splits if_splits)

lemma status_quiet: "(\<And>e. e \<in> set es \<Longrightarrow> \<not> responds e) \<Longrightarrow> status (es @ fs) = status fs"
proof (induction es)
  case Nil
  show ?case by simp
next
  case (Cons e es)
  from Cons.prems have "\<not> responds e" by simp
  moreover from Cons have "status (es @ fs) = status fs" by simp
  ultimately show ?case by (cases e) simp_all
qed

lemma filter_quiet: "(\<And>e. e \<in> set es \<Longrightarrow> \<not> responds e) \<Longrightarrow> filter responds es = []"
  by (induction es) auto

lemma getTmpl_prod: "\<not> devMode p \<Longrightarrow> getTmpl p w = ([], Ret (Inr (tmpl p)))"
  by (simp add: getTmpl_def)

text \<open>
  Claim C3: outside dev mode, when a request reaches the lookup (it passed the HTTPS and
  path checks and its remote address was split) and \<open>whoIs\<close> returns an error, whatever
  the error, the handler logs it and calls \<open>http.Error\<close> once, with status 500 and the
  fixed message. That call is the only one that writes a response: no fallback data is
  built and no template is executed.
\<close>

theorem root_prod_lookup_failure:
  assumes mode: "\<not> devMode p"
      and https: "\<not> (TLS r = None \<and> httpsAddr p \<noteq> [])"
      and uri: "RequestURI r = ''/''"
      and addr: "SplitHostPort (RemoteAddr r) = Inr (ip, port)"
      and who: "whoIs w ip = (es, Inl err)"
  shows "root p w r =
           (es @ [Printf ''whois(%q) error: %v'' [ip, err],
                  Error ''Your Tailscale works, but we failed to look you up.'' 500], Returned)
         \<and> filter responds (fst (root p w r)) =
             [Error ''Your Tailscale works, but we failed to look you up.'' 500]
         \<and> status (fst (root p w r)) = 500
         \<and> (\<forall>t data out e. Executed t data out e \<notin> set (fst (root p w r)))"
proof -
  have quiet: "\<And>e. e \<in> set es \<Longrightarrow> \<not> responds e"
    using who by (rule whoIs_quiet)
  have run: "root p w r =
           (es @ [Printf ''whois(%q) error: %v'' [ip, err],
                  Error ''Your Tailscale works, but we failed to look you up.'' 500], Returned)"
    using mode https uri addr who by (auto simp: root_def getTmpl_prod)
  have flt: "filter responds (fst (root p w r)) =
             [Error ''Your Tailscale works, but we failed to look you up.'' 500]"
    unfolding run using filter_quiet [OF quiet] by simp
  have st: "status (fst (root p w r)) = 500"
    unfolding run using status_quiet [OF quiet] by simp
  have "\<And>t data out e. Executed t data out e \<notin> set (fst (root p w r))"
  proof
    fix t data out e
    assume "Executed t data out e \<in> set (fst (root p w r))"
    then have "Executed t data out e \<in> set (filter responds (fst (root p w r)))"
      by simp
    then show False unfolding flt by simp
  qed
  with run flt st show ?thesis by blast
qed

text \<open>
  Claim C2: in dev mode, when a request reaches the lookup (path check passed, remote
  address split, template read and parsed) and \<open>whoIs\<close> returns an error, whatever the
  error, the handler logs a warning and executes the template on the fixed fallback
  record. It calls neither \<open>http.Error\<close> nor \<open>http.Redirect\<close>, so the response has status
  200 and the body that the template wrote.
\<close>

theorem root_dev_lookup_failure:
  assumes mode: "devMode p"
      and uri: "RequestURI r = ''/''"
      and addr: "SplitHostPort (RemoteAddr r) = Inr (ip, port)"
      and tmpl: "getTmpl p w = (es, Ret (Inr t))"
      and who: "whoIs w ip = (es', Inl err)"
  shows "root p w r =
           (es @ es' @
            [Printf ''warning: using fake data in dev mode due to whois lookup error: %v'' [err],
             HeaderSet ''Content-Type'' ''text/html; charset=utf-8'',
             Executed t fakeData (fst (Execute w t fakeData)) (snd (Execute w t fakeData))],
            Returned)
         \<and> fakeData =
             \<lparr>DisplayName = ''Taily Scalerson'', LoginName = ''taily@scaler.son'',
              ProfilePicURL = ''https://placekitten.com/200/200'', MachineName = ''scaled'',
              MachineOS = ''Linux'', IP = ''100.1.2.3''\<rparr>
         \<and> status (fst (root p w r)) = 200
         \<and> (\<forall>msg code. Error msg code \<notin> set (fst (root p w r)))
         \<and> (\<forall>url code. Redirect url code \<notin> set (fst (root p w r)))"
proof -
  have q1: "\<And>e. e \<in> set es \<Longrightarrow> \<not> responds e"
    using tmpl by (rule getTmpl_quiet)
  have q2: "\<And>e. e \<in> set es' \<Longrightarrow> \<not> responds e"
    using who by (rule whoIs_quiet)
  have https: "httpsAddr p = []"
    using mode by (simp add: devMode_def)
  have run: "root p w r =
           (es @ es' @
            [Printf ''warning: using fake data in dev mode due to whois lookup error: %v'' [err],
             HeaderSet ''Content-Type'' ''text/html; charset=utf-8'',
             Executed t fakeData (fst (Execute w t fakeData)) (snd (Execute w t fakeData))],
            Returned)"
    using mode https uri addr tmpl who by (simp add: root_def render_def)
  have st: "status (fst (root p w r)) = 200"
    unfolding run using status_quiet [OF q1] status_quiet [OF q2] by simp
  have noerr: "Error msg code \<notin> set (fst (root p w r))" for msg code
    unfolding run using q1 [of "Error msg code"] q2 [of "Error msg code"] by auto
  have nored: "Redirect url code \<notin> set (fst (root p w r))" for url code
    unfolding run using q1 [of "Redirect url code"] q2 [of "Redirect url code"] by auto
  show ?thesis
    using run st noerr nored by (simp add: fakeData_def)
qed

lemma example_split: "SplitHostPort ''100.2.3.4:5678'' = Inr (''100.2.3.4'', ''5678'')"
  by (simp add: SplitHostPort_def SplitHostPort_tail_def Let_def slice_to_def slice_from_def)

lemma example_whoIs_down:
  "whoIs (example_world\<lparr>Do := \<lambda>req. Inl ''connection refused''\<rparr>) ''100.2.3.4''
     = ([Sent example_lookup], Inl ''connection refused'')"
  by (simp add: whoIs_def example_world_def example_lookup_def)

lemma example_getTmpl_dev:
  "Parse w = Parse example_world \<Longrightarrow> ReadFile w = ReadFile example_world \<Longrightarrow>
   getTmpl example_dev w = ([FileRead ''hello.tmpl.html''], Ret (Inr (Template ''<h1>hello</h1>'')))"
  by (simp add: getTmpl_def slurpHTML_def devMode_def example_dev_def example_world_def)

theorem root_prod_lookup_failure_witness:
  "\<not> devMode example_prod
   \<and> \<not> (TLS example_request = None \<and> httpsAddr example_prod \<noteq> [])
   \<and> RequestURI example_request = ''/''
   \<and> SplitHostPort (RemoteAddr example_request) = Inr (''100.2.3.4'', ''5678'')
   \<and> whoIs (example_world\<lparr>Do := \<lambda>req. Inl ''connection refused''\<rparr>) ''100.2.3.4''
       = ([Sent example_lookup], Inl ''connection refused'')
   \<and> root example_prod (example_world\<lparr>Do := \<lambda>req. Inl ''connection refused''\<rparr>) example_request
       = ([Sent example_lookup,
           Printf ''whois(%q) error: %v'' [''100.2.3.4'', ''connection refused''],
           Error ''Your Tailscale works, but we failed to look you up.'' 500], Returned)
   \<and> status (fst (root example_prod (example_world\<lparr>Do := \<lambda>req. Inl ''connection refused''\<rparr>)
                      example_request)) = 500"
proof -
  let ?w = "example_world\<lparr>Do := \<lambda>req. Inl ''connection refused''\<rparr>"
  have mode: "\<not> devMode example_prod"
    by (simp add: devMode_def example_prod_def)
  have https: "\<not> (TLS example_request = None \<and> httpsAddr example_prod \<noteq> [])"
    by (simp add: example_request_def)
  have uri: "RequestURI example_request = ''/''"
    by (simp add: example_request_def)
  have addr: "SplitHostPort (RemoteAddr example_request) = Inr (''100.2.3.4'', ''5678'')"
    using example_split by (simp add: example_request_def)
  note run = root_prod_lookup_failure [OF mode https uri addr example_whoIs_down]
  from run have r1: "root example_prod ?w example_request
       = ([Sent example_lookup,
           Printf ''whois(%q) error: %v'' [''100.2.3.4'', ''connection refused''],
           Error ''Your Tailscale works, but we failed to look you up.'' 500], Returned)"
    by simp
  from run have r2: "status (fst (root example_prod ?w example_request)) = 500"
    by (elim conjE)
  show ?thesis
    using mode https uri addr example_whoIs_down r1 r2 by (intro conjI)
qed

theorem root_dev_lookup_failure_witness:
  "devMode example_dev
   \<and> RequestURI (example_request\<lparr>TLS := None\<rparr>) = ''/''
   \<and> SplitHostPort (RemoteAddr (example_request\<lparr>TLS := None\<rparr>)) = Inr (''100.2.3.4'', ''5678'')
   \<and> getTmpl example_dev (example_world\<lparr>Do := \<lambda>req. Inl ''connection refused''\<rparr>)
       = ([FileRead ''hello.tmpl.html''], Ret (Inr (Template ''<h1>hello</h1>'')))
   \<and> whoIs (example_world\<lparr>Do := \<lambda>req. Inl ''connection refused''\<rparr>) ''100.2.3.4''
       = ([Sent example_lookup], Inl ''connection refused'')
   \<and> root example_dev (example_world\<lparr>Do := \<lambda>req. Inl ''connection refused''\<rparr>)
         (example_request\<lparr>TLS := None\<rparr>)
       = ([FileRead ''hello.tmpl.html'', Sent example_lookup,
           Printf ''warning: using fake data in dev mode due to whois lookup error: %v''
             [''connection refused''],
           HeaderSet ''Content-Type'' ''text/html; charset=utf-8'',
           Executed (Template ''<h1>hello</h1>'')
             \<lparr>DisplayName = ''Taily Scalerson'', LoginName = ''taily@scaler.son'',
              ProfilePicURL = ''https://placekitten.com/200/200'', MachineName = ''scaled'',
              MachineOS = ''Linux'', IP = ''100.1.2.3''\<rparr>
             ''<h1>hello</h1>'' None], Returned)
   \<and> status (fst (root example_dev (example_world\<lparr>Do := \<lambda>req. Inl ''connection refused''\<rparr>)
                      (example_request\<lparr>TLS := None\<rparr>))) = 200"
proof -
  let ?w = "example_world\<lparr>Do := \<lambda>req. Inl ''connection refused''\<rparr>"
  let ?r = "example_request\<lparr>TLS := None\<rparr>"
  have mode: "devMode example_dev"
    by (simp add: devMode_def example_dev_def)
  have uri: "RequestURI ?r = ''/''"
    by (simp add: example_request_def)
  have addr: "SplitHostPort (RemoteAddr ?r) = Inr (''100.2.3.4'', ''5678'')"
    using example_split by (simp add: example_request_def)
  have tmpl: "getTmpl example_dev ?w = ([FileRead ''hello.tmpl.html''], Ret (Inr (Template ''<h1>hello</h1>'')))"
    by (rule example_getTmpl_dev) simp_all
  note run = root_dev_lookup_failure [OF mode uri addr tmpl example_whoIs_down]
  from run have r1: "root example_dev ?w ?r
       = ([FileRead ''hello.tmpl.html'', Sent example_lookup,
           Printf ''warning: using fake data in dev mode due to whois lookup error: %v''
             [''connection refused''],
           HeaderSet ''Content-Type'' ''text/html; charset=utf-8'',
           Executed (Template ''<h1>hello</h1>'')
             \<lparr>DisplayName = ''Taily Scalerson'', LoginName = ''taily@scaler.son'',
              ProfilePicURL = ''https://placekitten.com/200/200'', MachineName = ''scaled'',
              MachineOS = ''Linux'', IP = ''100.1.2.3''\<rparr>
             ''<h1>hello</h1>'' None], Returned)"
    by (simp add: example_world_def)
  from run have r2: "status (fst (root example_dev ?w ?r)) = 200"
    by (elim conjE)
  show ?thesis
    using mode uri addr tmpl example_whoIs_down r1 r2 by (intro conjI)
qed

section \<open>The runs of the handler\<close>

text \<open>The five ways a run goes on once the remote address is split.\<close>

lemma root_shapes [consumes 3, case_names fatal template fake fail found]:
  assumes https: "\<not> (TLS r = None \<and> httpsAddr p \<noteq> [])"
      and uri: "RequestURI r = ''/''"
      and addr: "SplitHostPort (RemoteAddr r) = Inr (ip, port)"
  obtains
    es where "getTmpl p w = (es, Exit)" "root p w r = (es, Exited)"
  | es err where "getTmpl p w = (es, Ret (Inl err))"
      "root p w r = (es @ [HeaderSet ''Content-Type'' ''text/plain'',
                           Error (''template error: '' @ err) 500], Returned)"
  | es t es' err where "devMode p" "getTmpl p w = (es, Ret (Inr t))"
      "whoIs w ip = (es', Inl err)"
      "root p w r =
         (es @ es' @
          [Printf ''warning: using fake data in dev mode due to whois lookup error: %v'' [err]]
          @ render w t fakeData, Returned)"
  | es t es' err where "\<not> devMode p" "getTmpl p w = (es, Ret (Inr t))"
      "whoIs w ip = (es', Inl err)"
      "root p w r =
         (es @ es' @
          [Printf ''whois(%q) error: %v'' [ip, err],
           Error ''Your Tailscale works, but we failed to look you up.'' 500], Returned)"
  | es t es' who where "getTmpl p w = (es, Ret (Inr t))" "whoIs w ip = (es', Inr who)"
      "root p w r =
         (es @ es' @
          render w t
            \<lparr>DisplayName = up_DisplayName (UserProfile who),
             LoginName = up_LoginName (UserProfile who),
             ProfilePicURL = up_ProfilePicURL (UserProfile who),
             MachineName = firstLabel (ComputedName (Node who)),
             MachineOS = OS (Hostinfo (Node who)),
             IP = ip\<rparr>, Returned)"
proof -
  obtain es x where g: "getTmpl p w = (es, x)"
    by (cases "getTmpl p w")
  obtain es' y where h: "whoIs w ip = (es', y)"
    by (cases "whoIs w ip")
  have first: "(TLS r = None \<and> httpsAddr p \<noteq> []) = False"
    using https by simp
  show thesis
  proof (cases x)
    case Exit
    with g uri addr have "root p w r = (es, Exited)"
      by (simp add: root_def first)
    with g Exit show thesis by (intro that(1)) simp_all
  next
    case (Ret v)
    show thesis
    proof (cases v)
      case (Inl err)
      with g Ret uri addr
      have "root p w r = (es @ [HeaderSet ''Content-Type'' ''text/plain'',
                           Error (''template error: '' @ err) 500], Returned)"
        by (simp add: root_def first)
      with g Ret Inl show thesis by (intro that(2)) simp_all
    next
      case (Inr t)
      note t = g [unfolded Ret Inr]
      show thesis
      proof (cases y)
        case (Inl err)
        show thesis
        proof (cases "devMode p")
          case True
          with t h Inl uri addr show thesis
            by (intro that(3) [of es t es' err]) (simp_all add: root_def first)
        next
          case False
          with t h Inl uri addr show thesis
            by (intro that(4) [of es t es' err]) (simp_all add: root_def first)
        qed
      next
        case (Inr who)
        with t h uri addr show thesis
          by (intro that(5) [of es t es' who]) (simp_all add: root_def first)
      qed
    qed
  qed
qed

lemma getTmpl_silent:
  assumes "getTmpl p w = (es, x)"
  shows "Error msg code \<notin> set es"
    and "Redirect url code \<notin> set es"
    and "Executed t d out e \<notin> set es"
  using getTmpl_quiet [OF assms, of "Error msg code"]
    getTmpl_quiet [OF assms, of "Redirect url code"]
    getTmpl_quiet [OF assms, of "Executed t d out e"]
  by auto

lemma whoIs_silent:
  assumes "whoIs w ip = (es, x)"
  shows "Error msg code \<notin> set es"
    and "Redirect url code \<notin> set es"
    and "Executed t d out e \<notin> set es"
  using whoIs_quiet [OF assms, of "Error msg code"]
    whoIs_quiet [OF assms, of "Redirect url code"]
    whoIs_quiet [OF assms, of "Executed t d out e"]
  by auto

lemma getTmpl_status: "getTmpl p w = (es, x) \<Longrightarrow> status (es @ fs) = status fs"
  by (rule status_quiet) (rule getTmpl_quiet)

lemma whoIs_status: "whoIs w ip = (es, x) \<Longrightarrow> status (es @ fs) = status fs"
  by (rule status_quiet) (rule whoIs_quiet)

lemma root_split_ok:
  assumes https: "\<not> (TLS r = None \<and> httpsAddr p \<noteq> [])"
      and uri: "RequestURI r = ''/''"
      and addr: "SplitHostPort (RemoteAddr r) = Inr (ip, port)"
  shows "Error ''no remote addr'' 500 \<notin> set (fst (root p w r))"
    and "Redirect url code \<notin> set (fst (root p w r))"
proof -
  have "Error ''no remote addr'' 500 \<notin> set (fst (root p w r))
        \<and> Redirect url code \<notin> set (fst (root p w r))"
    using https uri addr
  proof (cases rule: root_shapes [where w = w])
    case (fatal es)
    then show ?thesis
      using getTmpl_silent [of p w es]
      by simp
  next
    case (template es err)
    then show ?thesis
      using getTmpl_silent [of p w es]
      by simp
  next
    case (fake es t es' err)
    then show ?thesis
      using getTmpl_silent [of p w es] whoIs_silent [of w ip es']
      by (simp add: render_def)
  next
    case (fail es t es' err)
    then show ?thesis
      using getTmpl_silent [of p w es] whoIs_silent [of w ip es']
      by simp
  next
    case (found es t es' who)
    then show ?thesis
      using getTmpl_silent [of p w es] whoIs_silent [of w ip es']
      by (simp add: render_def)
  qed
  then show "Error ''no remote addr'' 500 \<notin> set (fst (root p w r))"
    and "Redirect url code \<notin> set (fst (root p w r))"
    by simp_all
qed

lemma root_split_error:
  assumes https: "\<not> (TLS r = None \<and> httpsAddr p \<noteq> [])"
      and uri: "RequestURI r = ''/''"
      and addr: "SplitHostPort (RemoteAddr r) = Inl e"
  shows "root p w r = ([Error ''no remote addr'' 500], Returned)"
proof -
  have first: "(TLS r = None \<and> httpsAddr p \<noteq> []) = False"
    using https by simp
  show ?thesis
    using uri addr by (simp add: root_def first)
qed

lemma example_whoIs_found:
  assumes "QueryEscape w = QueryEscape example_world"
      and "NewRequest w = NewRequest example_world"
      and "LocalTCPPortAndToken w = LocalTCPPortAndToken example_world"
      and "Do w = Do example_world"
      and "Unmarshal w = Unmarshal example_world"
  shows "whoIs w ''100.2.3.4'' = ([Sent example_lookup], Inr example_who)"
  using assms by (simp add: whoIs_def example_world_def example_lookup_def)

lemma example_getTmpl_prod:
  "getTmpl example_prod w = ([], Ret (Inr (Template ''<h1>hello</h1>'')))"
  by (simp add: getTmpl_def devMode_def example_prod_def)

lemma example_checks:
  "\<not> (TLS example_request = None \<and> httpsAddr example_prod \<noteq> [])"
  "\<not> (TLS (example_request\<lparr>TLS := None\<rparr>) = None \<and> httpsAddr example_dev \<noteq> [])"
  "RequestURI example_request = ''/''"
  "RequestURI (example_request\<lparr>TLS := None\<rparr>) = ''/''"
  "SplitHostPort (RemoteAddr example_request) = Inr (''100.2.3.4'', ''5678'')"
  "SplitHostPort (RemoteAddr (example_request\<lparr>TLS := None\<rparr>)) = Inr (''100.2.3.4'', ''5678'')"
  "devMode example_dev"
  "\<not> devMode example_prod"
  using example_split
  by (simp_all add: example_request_def example_dev_def example_prod_def devMode_def)

section \<open>The remote address\<close>

text \<open>
  Claim C9: for a request that reaches the address step (it passed the HTTPS and path
  checks), a remote address of the form \<open>host:port\<close>, or \<open>[host]:port\<close> for a host with
  colons, is split into that host and port, and the run then holds no redirect and no
  \<open>no remote addr\<close> error. A remote address without a colon, and more generally every
  address that \<open>net.SplitHostPort\<close> rejects, is answered by the single call
  \<open>http.Error(w, "no remote addr", 500)\<close>, after which the handler returns.
\<close>

theorem root_address_extract:
  assumes https: "\<not> (TLS r = None \<and> httpsAddr p \<noteq> [])"
      and uri: "RequestURI r = ''/''"
      and host: "CHR ''['' \<notin> set host" "CHR '']'' \<notin> set host"
      and port: "CHR '':'' \<notin> set port" "CHR ''['' \<notin> set port" "CHR '']'' \<notin> set port"
  shows "(RemoteAddr r = host @ CHR '':'' # port \<and> CHR '':'' \<notin> set host
            \<or> RemoteAddr r = CHR ''['' # host @ CHR '']'' # CHR '':'' # port
          \<longrightarrow> SplitHostPort (RemoteAddr r) = Inr (host, port)
              \<and> Error ''no remote addr'' 500 \<notin> set (fst (root p w r))
              \<and> (\<forall>url code. Redirect url code \<notin> set (fst (root p w r))))
         \<and> (CHR '':'' \<notin> set (RemoteAddr r)
            \<longrightarrow> root p w r = ([Error ''no remote addr'' 500], Returned))
         \<and> (\<forall>e. SplitHostPort (RemoteAddr r) = Inl e
            \<longrightarrow> root p w r = ([Error ''no remote addr'' 500], Returned))"
proof (intro conjI impI allI)
  assume "RemoteAddr r = host @ CHR '':'' # port \<and> CHR '':'' \<notin> set host
            \<or> RemoteAddr r = CHR ''['' # host @ CHR '']'' # CHR '':'' # port"
  then show ok: "SplitHostPort (RemoteAddr r) = Inr (host, port)"
    using host port SplitHostPort_host_port [of host port] SplitHostPort_bracket [of host port]
    by auto
  show "Error ''no remote addr'' 500 \<notin> set (fst (root p w r))"
    using https uri ok by (rule root_split_ok)
  show "Redirect url code \<notin> set (fst (root p w r))" for url code
    using https uri ok by (rule root_split_ok)
next
  assume "CHR '':'' \<notin> set (RemoteAddr r)"
  then have "SplitHostPort (RemoteAddr r) = Inl (AddrError missingPort (RemoteAddr r))"
    by (rule SplitHostPort_no_colon)
  with https uri show "root p w r = ([Error ''no remote addr'' 500], Returned)"
    by (rule root_split_error)
next
  fix e
  assume "SplitHostPort (RemoteAddr r) = Inl e"
  with https uri show "root p w r = ([Error ''no remote addr'' 500], Returned)"
    by (rule root_split_error)
qed

theorem root_address_extract_witness:
  "\<not> (TLS example_request = None \<and> httpsAddr example_prod \<noteq> [])
   \<and> RequestURI example_request = ''/''
   \<and> RemoteAddr example_request = ''100.2.3.4'' @ CHR '':'' # ''5678''
   \<and> SplitHostPort (RemoteAddr example_request) = Inr (''100.2.3.4'', ''5678'')
   \<and> Error ''no remote addr'' 500 \<notin> set (fst (root example_prod example_world example_request))
   \<and> RemoteAddr (example_request\<lparr>RemoteAddr := ''[fd7a:115c:a1e0::1]:5678''\<rparr>)
       = CHR ''['' # ''fd7a:115c:a1e0::1'' @ CHR '']'' # CHR '':'' # ''5678''
   \<and> SplitHostPort (RemoteAddr (example_request\<lparr>RemoteAddr := ''[fd7a:115c:a1e0::1]:5678''\<rparr>))
       = Inr (''fd7a:115c:a1e0::1'', ''5678'')
   \<and> CHR '':'' \<notin> set (RemoteAddr (example_request\<lparr>RemoteAddr := ''@''\<rparr>))
   \<and> root example_prod example_world (example_request\<lparr>RemoteAddr := ''@''\<rparr>)
       = ([Error ''no remote addr'' 500], Returned)"
proof -
  let ?r6 = "example_request\<lparr>RemoteAddr := ''[fd7a:115c:a1e0::1]:5678''\<rparr>"
  let ?r0 = "example_request\<lparr>RemoteAddr := ''@''\<rparr>"
  have https: "\<not> (TLS ?r6 = None \<and> httpsAddr example_prod \<noteq> [])"
      "\<not> (TLS ?r0 = None \<and> httpsAddr example_prod \<noteq> [])"
    by (simp_all add: example_request_def)
  have uri: "RequestURI ?r6 = ''/''" "RequestURI ?r0 = ''/''"
    by (simp_all add: example_request_def)
  have a4: "RemoteAddr example_request = ''100.2.3.4'' @ CHR '':'' # ''5678''"
    by (simp add: example_request_def)
  have a6: "RemoteAddr ?r6 = CHR ''['' # ''fd7a:115c:a1e0::1'' @ CHR '']'' # CHR '':'' # ''5678''"
    by simp
  have a0: "CHR '':'' \<notin> set (RemoteAddr ?r0)"
    by simp
  have t4: "SplitHostPort (RemoteAddr example_request) = Inr (''100.2.3.4'', ''5678'')
            \<and> Error ''no remote addr'' 500 \<notin> set (fst (root example_prod example_world example_request))"
    using root_address_extract [OF example_checks(1,3), of "''100.2.3.4''" "''5678''" example_world] a4
    by simp
  have t6: "SplitHostPort (RemoteAddr ?r6) = Inr (''fd7a:115c:a1e0::1'', ''5678'')"
    using root_address_extract [OF https(1) uri(1), of "''fd7a:115c:a1e0::1''" "''5678''" example_world] a6
    by simp
  have t0: "root example_prod example_world ?r0 = ([Error ''no remote addr'' 500], Returned)"
    using root_address_extract [OF https(2) uri(2), of "[]" "[]" example_world] a0
    by simp
  show ?thesis
    using example_checks(1,3) a4 t4 a6 t6 a0 t0 by (intro conjI) simp_all
qed

section \<open>A successful lookup\<close>

text \<open>
  Claim C1: when a request reaches the lookup and \<open>whoIs\<close> succeeds, the template is
  executed on the record made of the three fields of the user profile, the computed name
  of the node up to its first period (all of it when it has none), the OS of the node and
  the caller's IP. For the identity of the spec's example and the caller \<open>100.2.3.4\<close> the
  record is the one the spec gives, with machine name \<open>imac5k\<close>.
\<close>

theorem root_resolved_identity:
  assumes https: "\<not> (TLS r = None \<and> httpsAddr p \<noteq> [])"
      and uri: "RequestURI r = ''/''"
      and addr: "SplitHostPort (RemoteAddr r) = Inr (ip, port)"
      and tmpl: "getTmpl p w = (es, Ret (Inr t))"
      and who: "whoIs w ip = (es', Inr who)"
  shows "(let data =
            \<lparr>DisplayName = up_DisplayName (UserProfile who),
             LoginName = up_LoginName (UserProfile who),
             ProfilePicURL = up_ProfilePicURL (UserProfile who),
             MachineName = takeWhile (\<lambda>c. c \<noteq> CHR ''.'') (ComputedName (Node who)),
             MachineOS = OS (Hostinfo (Node who)),
             IP = ip\<rparr>
          in root p w r =
               (es @ es' @
                [HeaderSet ''Content-Type'' ''text/html; charset=utf-8'',
                 Executed t data (fst (Execute w t data)) (snd (Execute w t data))], Returned)
             \<and> (who = example_who \<and> ip = ''100.2.3.4'' \<longrightarrow>
                  data = \<lparr>DisplayName = ''Foo Barberson'', LoginName = ''foo@bar.com'',
                          ProfilePicURL = ''https://x/y.png'', MachineName = ''imac5k'',
                          MachineOS = ''Linux'', IP = ''100.2.3.4''\<rparr>))"
proof -
  have first: "(TLS r = None \<and> httpsAddr p \<noteq> []) = False"
    using https by simp
  have run: "root p w r =
         (es @ es' @
          render w t
            \<lparr>DisplayName = up_DisplayName (UserProfile who),
             LoginName = up_LoginName (UserProfile who),
             ProfilePicURL = up_ProfilePicURL (UserProfile who),
             MachineName = firstLabel (ComputedName (Node who)),
             MachineOS = OS (Hostinfo (Node who)),
             IP = ip\<rparr>, Returned)"
    using uri addr tmpl who by (simp add: root_def first)
  have ex: "takeWhile (\<lambda>c. c \<noteq> CHR ''.'') ''imac5k.local'' = ''imac5k''"
    by simp
  show ?thesis
    unfolding Let_def run firstLabel_takeWhile render_def
    using ex by (simp add: example_who_def)
qed

theorem root_resolved_identity_witness:
  "\<not> (TLS example_request = None \<and> httpsAddr example_prod \<noteq> [])
   \<and> RequestURI example_request = ''/''
   \<and> SplitHostPort (RemoteAddr example_request) = Inr (''100.2.3.4'', ''5678'')
   \<and> getTmpl example_prod example_world = ([], Ret (Inr (Template ''<h1>hello</h1>'')))
   \<and> whoIs example_world ''100.2.3.4'' = ([Sent example_lookup], Inr example_who)
   \<and> root example_prod example_world example_request =
       ([Sent example_lookup,
         HeaderSet ''Content-Type'' ''text/html; charset=utf-8'',
         Executed (Template ''<h1>hello</h1>'')
           \<lparr>DisplayName = ''Foo Barberson'', LoginName = ''foo@bar.com'',
            ProfilePicURL = ''https://x/y.png'', MachineName = ''imac5k'',
            MachineOS = ''Linux'', IP = ''100.2.3.4''\<rparr>
           ''<h1>hello</h1>'' None], Returned)"
proof -
  have who: "whoIs example_world ''100.2.3.4'' = ([Sent example_lookup], Inr example_who)"
    by (rule example_whoIs_found) simp_all
  note run = root_resolved_identity [OF example_checks(1,3,5) example_getTmpl_prod who]
  have ex: "Execute example_world = (\<lambda>t data. (''<h1>hello</h1>'', None))"
    by (simp add: example_world_def)
  from run have "root example_prod example_world example_request =
       ([Sent example_lookup,
         HeaderSet ''Content-Type'' ''text/html; charset=utf-8'',
         Executed (Template ''<h1>hello</h1>'')
           \<lparr>DisplayName = ''Foo Barberson'', LoginName = ''foo@bar.com'',
            ProfilePicURL = ''https://x/y.png'', MachineName = ''imac5k'',
            MachineOS = ''Linux'', IP = ''100.2.3.4''\<rparr>
           ''<h1>hello</h1>'' None], Returned)"
    by (simp add: Let_def ex)
  with example_checks(1,3,5) example_getTmpl_prod who show ?thesis
    by (intro conjI)
qed

section \<open>A body that does not decode\<close>

text \<open>
  Claim C4: when the daemon answers 200 and the body does not decode, the error of
  \<open>whoIs\<close> is the fixed text followed by the \<open>%q\<close> form of the first 200 bytes of the
  body: the whole body when it has at most 200 bytes, and a proper prefix of exactly 200
  bytes when it has more. (The characters of the claim are the bytes of the body.)
\<close>

theorem whoIs_decode_error_bounded:
  assumes req: "req =
        \<lparr>cr_Method = ''GET'',
         cr_URL = ''http://local-tailscaled.sock/localapi/v0/whois?ip='' @ QueryEscape w ip,
         cr_BasicAuth = (case LocalTCPPortAndToken w of
                           Inl e \<Rightarrow> None | Inr (port, token) \<Rightarrow> Some ([], token))\<rparr>"
      and new: "NewRequest w ''GET'' (cr_URL req) = None"
      and sent: "Do w req = Inr res"
      and ok: "StatusCode res = 200"
      and bad: "Unmarshal w (Body res) = Inl err"
  shows "whoIs w ip =
           ([Sent req],
            Inl (''failed to parse JSON WhoIsResponse from '' @ Quote w (take 200 (Body res))))
         \<and> length (take 200 (Body res)) \<le> 200
         \<and> (length (Body res) \<le> 200 \<longrightarrow> take 200 (Body res) = Body res)
         \<and> (length (Body res) > 200 \<longrightarrow>
              length (take 200 (Body res)) = 200 \<and> take 200 (Body res) \<noteq> Body res)"
proof -
  have url: "cr_URL req = ''http://local-tailscaled.sock/localapi/v0/whois?ip='' @ QueryEscape w ip"
    by (simp add: req)
  have cut: "(if int (length (Body res)) > 200 then slice_to (Body res) 200 else Body res)
               = take 200 (Body res)"
    by (simp add: slice_to_def)
  have run: "whoIs w ip =
           ([Sent req],
            Inl (''failed to parse JSON WhoIsResponse from '' @ Quote w (take 200 (Body res))))"
    using new [unfolded url] sent [unfolded req] ok bad cut
    by (simp add: whoIs_def Let_def req)
  have "length (Body res) > 200 \<Longrightarrow> take 200 (Body res) \<noteq> Body res"
  proof
    assume "length (Body res) > 200" and "take 200 (Body res) = Body res"
    then have "length (take 200 (Body res)) > 200" by simp
    then show False by simp
  qed
  with run show ?thesis by simp
qed

theorem whoIs_decode_error_bounded_witness:
  "NewRequest example_garbled ''GET'' (cr_URL example_lookup) = None
   \<and> Do example_garbled example_lookup =
       Inr \<lparr>StatusCode = 200, Status = ''200 OK'', Body = replicate 300 CHR ''<''\<rparr>
   \<and> Unmarshal example_garbled (replicate 300 CHR ''<'') = Inl ''invalid character''
   \<and> length (replicate 300 CHR ''<'') > 200
   \<and> whoIs example_garbled ''100.2.3.4'' =
       ([Sent example_lookup],
        Inl (''failed to parse JSON WhoIsResponse from '' @
             [CHR 0x22] @ replicate 200 CHR ''<'' @ [CHR 0x22]))"
proof -
  let ?res = "\<lparr>StatusCode = 200, Status = ''200 OK'', Body = replicate 300 CHR ''<''\<rparr>"
  have req: "example_lookup =
        \<lparr>cr_Method = ''GET'',
         cr_URL = ''http://local-tailscaled.sock/localapi/v0/whois?ip=''
                  @ QueryEscape example_garbled ''100.2.3.4'',
         cr_BasicAuth = (case LocalTCPPortAndToken example_garbled of
                           Inl e \<Rightarrow> None | Inr (port, token) \<Rightarrow> Some ([], token))\<rparr>"
    by (simp add: example_lookup_def example_garbled_def example_world_def)
  have new: "NewRequest example_garbled ''GET'' (cr_URL example_lookup) = None"
    by (simp add: example_garbled_def example_world_def)
  have sent: "Do example_garbled example_lookup = Inr ?res"
    by (simp add: example_garbled_def)
  have ok: "StatusCode ?res = 200"
    by simp
  have bad: "Unmarshal example_garbled (Body ?res) = Inl ''invalid character''"
    by (simp add: example_garbled_def)
  have quote: "Quote example_garbled = (\<lambda>s. [CHR 0x22] @ s @ [CHR 0x22])"
    by (simp add: example_garbled_def example_world_def)
  note run = whoIs_decode_error_bounded [OF req new sent ok bad]
  from run have "whoIs example_garbled ''100.2.3.4'' =
       ([Sent example_lookup],
        Inl (''failed to parse JSON WhoIsResponse from '' @
             [CHR 0x22] @ replicate 200 CHR ''<'' @ [CHR 0x22]))"
    by (simp add: quote)
  with new sent bad show ?thesis
    by simp
qed

section \<open>The template\<close>

text \<open>
  Claim C10: in dev mode, for a request that reaches \<open>getTmpl\<close>, a failure to read the
  template file ends the process (\<open>log.Fatal\<close>): the handler does not return and writes no
  response. When the file is read and its text does not parse, the handler answers 500
  with \<open>template error: \<close> and the error. Every \<open>http.Error\<close> call of a dev-mode run is
  of that second kind.
\<close>

theorem root_dev_template_read:
  assumes mode: "devMode p"
      and uri: "RequestURI r = ''/''"
      and addr: "SplitHostPort (RemoteAddr r) = Inr (ip, port)"
  shows "(\<forall>err. ReadFile w ''hello.tmpl.html'' = Inl err \<longrightarrow>
            root p w r = ([FileRead ''hello.tmpl.html'', Fatal err], Exited))
         \<and> (\<forall>src err. ReadFile w ''hello.tmpl.html'' = Inr src \<and> Parse w src = Inl err \<longrightarrow>
              root p w r =
                ([FileRead ''hello.tmpl.html'', HeaderSet ''Content-Type'' ''text/plain'',
                  Error (''template error: '' @ err) 500], Returned))
         \<and> (\<forall>msg code. Error msg code \<in> set (fst (root p w r)) \<longrightarrow>
              code = 500 \<and>
              (\<exists>src err. ReadFile w ''hello.tmpl.html'' = Inr src \<and> Parse w src = Inl err
                 \<and> msg = ''template error: '' @ err))"
proof -
  have https: "\<not> (TLS r = None \<and> httpsAddr p \<noteq> [])"
    using mode by (simp add: devMode_def)
  have first: "(TLS r = None \<and> httpsAddr p \<noteq> []) = False"
    using https by simp
  have read_failure: "root p w r = ([FileRead ''hello.tmpl.html'', Fatal err], Exited)"
    if "ReadFile w ''hello.tmpl.html'' = Inl err" for err
    using that mode uri addr by (simp add: root_def first getTmpl_def slurpHTML_def)
  have parse_failure: "root p w r =
                ([FileRead ''hello.tmpl.html'', HeaderSet ''Content-Type'' ''text/plain'',
                  Error (''template error: '' @ err) 500], Returned)"
    if "ReadFile w ''hello.tmpl.html'' = Inr src" "Parse w src = Inl err" for src err
    using that mode uri addr by (simp add: root_def first getTmpl_def slurpHTML_def)
  have only: "code = 500 \<and>
              (\<exists>src err. ReadFile w ''hello.tmpl.html'' = Inr src \<and> Parse w src = Inl err
                 \<and> msg = ''template error: '' @ err)"
    if ev: "Error msg code \<in> set (fst (root p w r))" for msg code
    using https uri addr
  proof (cases rule: root_shapes [where w = w])
    case (fatal es)
    with ev show ?thesis
      using getTmpl_silent [of p w es] by simp
  next
    case (template es err)
    from template(1) mode
    have "\<exists>src. ReadFile w ''hello.tmpl.html'' = Inr src \<and> Parse w src = Inl err"
      by (auto simp: getTmpl_def slurpHTML_def split: sum.splits)
    with ev template show ?thesis
      using getTmpl_silent [of p w es] by auto
  next
    case (fake es t es' err)
    with ev show ?thesis
      using getTmpl_silent [of p w es] whoIs_silent [of w ip es']
      by (auto simp: render_def)
  next
    case (fail es t es' err)
    with mode show ?thesis by simp
  next
    case (found es t es' who)
    with ev show ?thesis
      using getTmpl_silent [of p w es] whoIs_silent [of w ip es']
      by (auto simp: render_def)
  qed
  show ?thesis
    using read_failure parse_failure only by blast
qed

theorem root_dev_template_read_witness:
  "devMode example_dev
   \<and> RequestURI (example_request\<lparr>TLS := None\<rparr>) = ''/''
   \<and> SplitHostPort (RemoteAddr (example_request\<lparr>TLS := None\<rparr>)) = Inr (''100.2.3.4'', ''5678'')
   \<and> ReadFile example_unreadable ''hello.tmpl.html''
       = Inl ''open hello.tmpl.html: no such file or directory''
   \<and> root example_dev example_unreadable (example_request\<lparr>TLS := None\<rparr>) =
       ([FileRead ''hello.tmpl.html'',
         Fatal ''open hello.tmpl.html: no such file or directory''], Exited)
   \<and> ReadFile example_unparsable ''hello.tmpl.html'' = Inr ''<h1>{{.DisplayName</h1>''
   \<and> Parse example_unparsable ''<h1>{{.DisplayName</h1>'' = Inl ''template: home:1: unclosed action''
   \<and> root example_dev example_unparsable (example_request\<lparr>TLS := None\<rparr>) =
       ([FileRead ''hello.tmpl.html'', HeaderSet ''Content-Type'' ''text/plain'',
         Error ''template error: template: home:1: unclosed action'' 500], Returned)"
proof -
  let ?r = "example_request\<lparr>TLS := None\<rparr>"
  have rd: "ReadFile example_unreadable ''hello.tmpl.html''
       = Inl ''open hello.tmpl.html: no such file or directory''"
    by (simp add: example_unreadable_def)
  have rp: "ReadFile example_unparsable ''hello.tmpl.html'' = Inr ''<h1>{{.DisplayName</h1>''"
    by (simp add: example_unparsable_def)
  have pp: "Parse example_unparsable ''<h1>{{.DisplayName</h1>'' = Inl ''template: home:1: unclosed action''"
    by (simp add: example_unparsable_def)
  have t1: "root example_dev example_unreadable ?r =
       ([FileRead ''hello.tmpl.html'',
         Fatal ''open hello.tmpl.html: no such file or directory''], Exited)"
    using root_dev_template_read [OF example_checks(7,4,6), of example_unreadable] rd
    by blast
  have t2: "root example_dev example_unparsable ?r =
       ([FileRead ''hello.tmpl.html'', HeaderSet ''Content-Type'' ''text/plain'',
         Error (''template error: '' @ ''template: home:1: unclosed action'') 500], Returned)"
    using root_dev_template_read [OF example_checks(7,4,6), of example_unparsable] rp pp
    by blast
  show ?thesis
    using example_checks(7,4,6) rd t1 rp pp t2 by (intro conjI) simp_all
qed

text \<open>
  A run that executed the template wrote no error: whatever \<open>Execute\<close> returned, the
  status is 200.
\<close>

lemma root_executed_status:
  assumes https: "\<not> (TLS r = None \<and> httpsAddr p \<noteq> [])"
      and uri: "RequestURI r = ''/''"
      and addr: "SplitHostPort (RemoteAddr r) = Inr (ip, port)"
      and ev: "Executed t data out err \<in> set (fst (root p w r))"
  shows "status (fst (root p w r)) = 200 \<and> Error msg code \<notin> set (fst (root p w r))"
  using https uri addr
proof (cases rule: root_shapes [where w = w])
  case (fatal es)
  with ev show ?thesis
    using getTmpl_silent [of p w es] by simp
next
  case (template es err)
  with ev show ?thesis
    using getTmpl_silent [of p w es] by simp
next
  case (fake es t es' err)
  then show ?thesis
    using getTmpl_silent [of p w es] whoIs_silent [of w ip es']
      getTmpl_status [of p w es] whoIs_status [of w ip es']
    by (simp add: render_def)
next
  case (fail es t es' err)
  with ev show ?thesis
    using getTmpl_silent [of p w es] whoIs_silent [of w ip es']
    by simp
next
  case (found es t es' who)
  then show ?thesis
    using getTmpl_silent [of p w es] whoIs_silent [of w ip es']
      getTmpl_status [of p w es] whoIs_status [of w ip es']
    by (simp add: render_def)
qed

lemma example_root_unexecutable:
  "root example_dev example_unexecutable (example_request\<lparr>TLS := None\<rparr>) =
     ([FileRead ''hello.tmpl.html'', Sent example_lookup,
       HeaderSet ''Content-Type'' ''text/html; charset=utf-8'',
       Executed (Template ''<h1>{{.Nope}}</h1>'')
         \<lparr>DisplayName = ''Foo Barberson'', LoginName = ''foo@bar.com'',
          ProfilePicURL = ''https://x/y.png'', MachineName = ''imac5k'',
          MachineOS = ''Linux'', IP = ''100.2.3.4''\<rparr>
         ''<h1>'' (Some ''can't evaluate field Nope in type main.tmplData'')], Returned)"
proof -
  have who: "whoIs example_unexecutable ''100.2.3.4'' = ([Sent example_lookup], Inr example_who)"
    by (rule example_whoIs_found) (simp_all add: example_unexecutable_def)
  have tmpl: "getTmpl example_dev example_unexecutable =
                ([FileRead ''hello.tmpl.html''], Ret (Inr (Template ''<h1>{{.Nope}}</h1>'')))"
    by (simp add: getTmpl_def slurpHTML_def devMode_def example_dev_def
          example_unexecutable_def example_world_def)
  have first: "httpsAddr example_dev = []"
    by (simp add: example_dev_def)
  have label: "firstLabel ''imac5k.local'' = ''imac5k''"
    by (simp add: firstLabel_takeWhile)
  have ex: "Execute example_unexecutable =
              (\<lambda>t data. (''<h1>'', Some ''can't evaluate field Nope in type main.tmplData''))"
    by (simp add: example_unexecutable_def)
  show ?thesis
    using example_checks(4,6) who tmpl label
    by (simp add: root_def first render_def ex example_who_def)
qed

text \<open>
  Claim C6 as the spec states it (every failure of the render step, template execution
  included, is answered by 500 with the error detail) fails: in dev mode, with a template
  that names a field the record does not have, \<open>Execute\<close> returns an error after the
  HTML header is set, the handler drops the error and the response goes out with status
  200.
\<close>

theorem root_execute_failure_not_500:
  "root example_dev example_unexecutable (example_request\<lparr>TLS := None\<rparr>) =
     ([FileRead ''hello.tmpl.html'', Sent example_lookup,
       HeaderSet ''Content-Type'' ''text/html; charset=utf-8'',
       Executed (Template ''<h1>{{.Nope}}</h1>'')
         \<lparr>DisplayName = ''Foo Barberson'', LoginName = ''foo@bar.com'',
          ProfilePicURL = ''https://x/y.png'', MachineName = ''imac5k'',
          MachineOS = ''Linux'', IP = ''100.2.3.4''\<rparr>
         ''<h1>'' (Some ''can't evaluate field Nope in type main.tmplData'')], Returned)
   \<and> status (fst (root example_dev example_unexecutable (example_request\<lparr>TLS := None\<rparr>))) = 200
   \<and> status (fst (root example_dev example_unexecutable (example_request\<lparr>TLS := None\<rparr>))) \<noteq> 500"
  unfolding example_root_unexecutable by simp

text \<open>
  Claim C6, amended: when \<open>getTmpl\<close> returns an error, which happens only in dev mode when
  the text read from the template file does not parse, the handler answers 500 with the
  plain-text body \<open>template error: \<close> followed by the error.
\<close>

theorem root_template_failure:
  assumes https: "\<not> (TLS r = None \<and> httpsAddr p \<noteq> [])"
      and uri: "RequestURI r = ''/''"
      and addr: "SplitHostPort (RemoteAddr r) = Inr (ip, port)"
      and tmpl: "getTmpl p w = (es, Ret (Inl err))"
  shows "root p w r =
           (es @ [HeaderSet ''Content-Type'' ''text/plain'',
                  Error (''template error: '' @ err) 500], Returned)
         \<and> status (fst (root p w r)) = 500
         \<and> devMode p
         \<and> (\<exists>src. ReadFile w ''hello.tmpl.html'' = Inr src \<and> Parse w src = Inl err)"
proof -
  have first: "(TLS r = None \<and> httpsAddr p \<noteq> []) = False"
    using https by simp
  have run: "root p w r =
              (es @ [HeaderSet ''Content-Type'' ''text/plain'',
                     Error (''template error: '' @ err) 500], Returned)"
    using tmpl uri addr by (simp add: root_def first)
  have st: "status (fst (root p w r)) = 500"
    unfolding run using getTmpl_status [OF tmpl] by simp
  have mode: "devMode p"
    using tmpl by (auto simp: getTmpl_def split: if_splits)
  with tmpl have "\<exists>src. ReadFile w ''hello.tmpl.html'' = Inr src \<and> Parse w src = Inl err"
    by (auto simp: getTmpl_def slurpHTML_def split: sum.splits)
  with run st mode show ?thesis by simp
qed

theorem root_template_failure_witness:
  "\<not> (TLS (example_request\<lparr>TLS := None\<rparr>) = None \<and> httpsAddr example_dev \<noteq> [])
   \<and> RequestURI (example_request\<lparr>TLS := None\<rparr>) = ''/''
   \<and> SplitHostPort (RemoteAddr (example_request\<lparr>TLS := None\<rparr>)) = Inr (''100.2.3.4'', ''5678'')
   \<and> getTmpl example_dev example_unparsable =
       ([FileRead ''hello.tmpl.html''], Ret (Inl ''template: home:1: unclosed action''))
   \<and> root example_dev example_unparsable (example_request\<lparr>TLS := None\<rparr>) =
       ([FileRead ''hello.tmpl.html'', HeaderSet ''Content-Type'' ''text/plain'',
         Error ''template error: template: home:1: unclosed action'' 500], Returned)
   \<and> status (fst (root example_dev example_unparsable (example_request\<lparr>TLS := None\<rparr>))) = 500"
proof -
  let ?r = "example_request\<lparr>TLS := None\<rparr>"
  have tmpl: "getTmpl example_dev example_unparsable =
       ([FileRead ''hello.tmpl.html''], Ret (Inl ''template: home:1: unclosed action''))"
    by (simp add: getTmpl_def slurpHTML_def devMode_def example_dev_def
          example_unparsable_def)
  note a = root_template_failure [OF example_checks(2,4,6) tmpl]
  from a have a1: "root example_dev example_unparsable ?r =
       ([FileRead ''hello.tmpl.html'', HeaderSet ''Content-Type'' ''text/plain'',
         Error ''template error: template: home:1: unclosed action'' 500], Returned)"
    by simp
  from a have a2: "status (fst (root example_dev example_unparsable ?r)) = 500"
    by (elim conjE)
  show ?thesis
    using example_checks(2,4,6) tmpl a1 a2 by (intro conjI)
qed

end
